theory Spec2Isabelle
  imports Complex_Main
begin

section \<open>geomeppy.builder: building block geometry from minimal inputs\<close>

text \<open>
  A shallow embedding of \<^verbatim>\<open>src/geomeppy/builder.py\<close>: the classes \<^verbatim>\<open>Zone\<close> and
  \<^verbatim>\<open>Block\<close> and the function \<^verbatim>\<open>make_wall\<close>.

  Numbers. The module imports true division, so \<^verbatim>\<open>/\<close> never truncates. The storey
  counts, which feed \<^verbatim>\<open>range\<close>, are Python integers and are modelled as \<^typ>\<open>int\<close>.
  Heights and coordinates are modelled as \<^typ>\<open>real\<close>. The surface properties are stated
  relative to the elevation lists and take them in exact arithmetic; the elevation
  properties themselves are embedded a second time over the floats of the program.

  Errors. Every property of \<^verbatim>\<open>Block\<close> is recomputed on access and may raise; each is a
  function into \<open>py_error + 'a\<close> with \<open>Inl\<close> for the exception.
\<close>

datatype py_error = IndexError | ZeroDivisionError | OverflowError

subsection \<open>The geometry primitives used by the module\<close>

text \<open>
  \<^verbatim>\<open>geomeppy.vectors.Vector3D\<close> and \<^verbatim>\<open>geomeppy.polygons.Polygon3D\<close> are imported by
  the module but defined elsewhere. A vector is its three components, a polygon is the
  ordered sequence of its vertices.
\<close>

type_synonym Vector3D = "real \<times> real \<times> real"

type_synonym Polygon3D = "Vector3D list"

text \<open>Modelled from the spec: \<^verbatim>\<open>Vector3D.__add__\<close> is missing from the sources; section 6
  describes it as the addition of a 3-D displacement to a point.\<close>

fun Vector3D_add :: "Vector3D \<Rightarrow> Vector3D \<Rightarrow> Vector3D" where
  "Vector3D_add (x1, y1, z1) (x2, y2, z2) = (x1 + x2, y1 + y2, z1 + z2)"

text \<open>Modelled from the spec: \<^verbatim>\<open>Polygon3D.__add__\<close> is missing from the sources; section 6
  describes it as the addition of a displacement to every vertex.\<close>

definition Polygon3D_add :: "Polygon3D \<Rightarrow> Vector3D \<Rightarrow> Polygon3D" where
  "Polygon3D_add poly v = map (\<lambda>p. Vector3D_add p v) poly"

text \<open>Modelled from the spec: \<^verbatim>\<open>Polygon3D.invert_orientation\<close> is missing from the sources;
  sections 4.2 and 6 describe it as producing the polygon with reversed winding.\<close>

definition invert_orientation :: "Polygon3D \<Rightarrow> Polygon3D" where
  "invert_orientation poly = rev poly"

text \<open>Modelled from the spec: \<^verbatim>\<open>Polygon3D.edges\<close> is missing from the sources; sections 4.2
  and 6 describe the edges as the ordered endpoint pairs \<open>(p1, p2)\<close> of consecutive
  points, wrapping from the last point to the first.\<close>

definition edges :: "Polygon3D \<Rightarrow> (Vector3D \<times> Vector3D) list" where
  "edges poly = zip poly (rotate1 poly)"

abbreviation p1 :: "Vector3D \<times> Vector3D \<Rightarrow> Vector3D" where
  "p1 \<equiv> fst"

abbreviation p2 :: "Vector3D \<times> Vector3D \<Rightarrow> Vector3D" where
  "p2 \<equiv> snd"

fun cross :: "Vector3D \<Rightarrow> Vector3D \<Rightarrow> Vector3D" where
  "cross (a1, a2, a3) (b1, b2, b3) =
     (a2 * b3 - a3 * b2, a3 * b1 - a1 * b3, a1 * b2 - a2 * b1)"

definition normal_sum :: "Polygon3D \<Rightarrow> Vector3D" where
  "normal_sum poly =
     foldr (\<lambda>e acc. Vector3D_add (cross (p1 e) (p2 e)) acc) (edges poly) (0, 0, 0)"

text \<open>
  \<^verbatim>\<open>Polygon3D.area\<close> is missing from the sources as well, and section 6 only names it an
  area query. \<^verbatim>\<open>Zone.__init__\<close>, its only caller, therefore takes the area query as a
  parameter. \<open>polygon_area\<close> is one such query, the area of a planar polygon: half the
  length of the sum of the cross products of consecutive vertices.
\<close>

definition polygon_area :: "Polygon3D \<Rightarrow> real" where
  "polygon_area poly =
     (case normal_sum poly of (nx, ny, nz) \<Rightarrow> sqrt (nx * nx + ny * ny + nz * nz) / 2)"

subsection \<open>Surface groups\<close>

text \<open>
  The per-storey entries of \<^verbatim>\<open>walls\<close> and \<^verbatim>\<open>floors\<close> are lists of polygons. The entries of
  \<^verbatim>\<open>ceilings\<close> and \<^verbatim>\<open>roofs\<close> are not uniformly typed in the source: an entry is a list
  whose elements are polygons or \<^verbatim>\<open>None\<close>, or it is a string.
\<close>

datatype entry = Str string | Polys "Polygon3D option list"

subsection \<open>make_wall\<close>

definition make_wall :: "Vector3D \<times> Vector3D \<Rightarrow> real \<Rightarrow> real \<Rightarrow> Polygon3D" where
  "make_wall edge fh ch =
     [Vector3D_add (p1 edge) (0, 0, ch),
      Vector3D_add (p1 edge) (0, 0, fh),
      Vector3D_add (p2 edge) (0, 0, fh),
      Vector3D_add (p2 edge) (0, 0, ch)]"

subsection \<open>Block\<close>

record Block =
  name :: string
  coordinates :: "(real \<times> real) list"
  height :: real
  num_stories :: int
  num_below_ground_stories :: int
  below_ground_storey_height :: real

text \<open>
  \<^verbatim>\<open>Block.__init__\<close>. Reading \<^verbatim>\<open>coordinates[0]\<close> of an empty list raises. On a list with
  equal first and last element \<^verbatim>\<open>pop()\<close> removes the last element, once. (The list is the
  caller's and \<^verbatim>\<open>pop()\<close> changes it in place; the model returns the block only.) The
  storey counts and the height are stored unchecked.
\<close>

definition Block_init ::
  "string \<Rightarrow> (real \<times> real) list \<Rightarrow> real \<Rightarrow> int \<Rightarrow> int \<Rightarrow> real \<Rightarrow> py_error + Block" where
  "Block_init nm coords h n bg bgh =
     (if coords = [] then Inl IndexError
      else Inr \<lparr>name = nm,
                coordinates = (if hd coords = last coords then butlast coords else coords),
                height = h,
                num_stories = n,
                num_below_ground_stories = bg,
                below_ground_storey_height = bgh\<rparr>)"

definition footprint :: "Block \<Rightarrow> Polygon3D" where
  "footprint b = map (\<lambda>v. (fst v, snd v, 0)) (coordinates b)"

definition storey_height :: "Block \<Rightarrow> py_error + real" where
  "storey_height b =
     (if num_stories b - num_below_ground_stories b = 0 then Inl ZeroDivisionError
      else Inr (height b / of_int (num_stories b - num_below_ground_stories b)))"

definition lowest_floor_level :: "Block \<Rightarrow> real" where
  "lowest_floor_level b = - (of_int (num_below_ground_stories b) * below_ground_storey_height b)"

text \<open>\<^verbatim>\<open>range(n)\<close> is \<open>[0..n - 1]\<close>, empty when \<open>n \<le> 0\<close>.\<close>

definition floor_heights :: "Block \<Rightarrow> py_error + real list" where
  "floor_heights b =
     (let lfl = lowest_floor_level b in
      case storey_height b of
        Inl e \<Rightarrow> Inl e
      | Inr sh \<Rightarrow> Inr (map (\<lambda>i. lfl + sh * of_int i) [0..num_stories b - 1]))"

definition ceiling_heights :: "Block \<Rightarrow> py_error + real list" where
  "ceiling_heights b =
     (let lfl = lowest_floor_level b in
      case storey_height b of
        Inl e \<Rightarrow> Inl e
      | Inr sh \<Rightarrow> Inr (map (\<lambda>i. lfl + sh * of_int (i + 1)) [0..num_stories b - 1]))"

text \<open>
  \<^verbatim>\<open>Block.walls\<close>. Both elevation lists are computed before the loop starts; \<^verbatim>\<open>zip\<close> pairs
  them storey by storey.
\<close>

definition walls :: "Block \<Rightarrow> py_error + Polygon3D list list" where
  "walls b =
     (case floor_heights b of
        Inl e \<Rightarrow> Inl e
      | Inr fhs \<Rightarrow>
          (case ceiling_heights b of
             Inl e \<Rightarrow> Inl e
           | Inr chs \<Rightarrow>
               Inr (map (\<lambda>(fh, ch). map (\<lambda>edge. make_wall edge fh ch) (edges (footprint b)))
                      (zip fhs chs))))"

definition floors :: "Block \<Rightarrow> py_error + Polygon3D list list" where
  "floors b =
     (case floor_heights b of
        Inl e \<Rightarrow> Inl e
      | Inr fhs \<Rightarrow>
          Inr (map (\<lambda>fh. [Polygon3D_add (invert_orientation (footprint b)) (0, 0, fh)]) fhs))"

text \<open>\<^verbatim>\<open>xs[:-1]\<close> is \<open>butlast xs\<close>, also on the empty list.\<close>

definition ceilings :: "Block \<Rightarrow> py_error + entry list" where
  "ceilings b =
     (case ceiling_heights b of
        Inl e \<Rightarrow> Inl e
      | Inr chs \<Rightarrow>
          Inr (map (\<lambda>ch. Polys [Some (Polygon3D_add (footprint b) (0, 0, ch))]) (butlast chs)
               @ [Str '''']))"

definition roofs :: "Block \<Rightarrow> py_error + entry list" where
  "roofs b =
     (case ceiling_heights b of
        Inl e \<Rightarrow> Inl e
      | Inr chs \<Rightarrow>
          Inr (map (\<lambda>ch. Polys [None]) (butlast chs)
               @ [Polys [Some (Polygon3D_add (footprint b) (0, 0, height b))]]))"



text \<open>
  \<^verbatim>\<open>Block.stories\<close>: one dict per storey. The loop runs over the \<^verbatim>\<open>zip\<close> of the four
  surface lists, which stops at the shortest, and counts the storey number up from
  \<open>- num_below_ground_stories\<close>.
\<close>

record storey_dict =
  storey_no :: int
  storey_floors :: "Polygon3D list"
  storey_ceilings :: entry
  storey_walls :: "Polygon3D list"
  storey_roofs :: entry

fun stories_loop ::
  "int \<Rightarrow> Polygon3D list list \<Rightarrow> entry list \<Rightarrow> Polygon3D list list \<Rightarrow> entry list \<Rightarrow> storey_dict list"
where
  "stories_loop floor_no (f # fs) (c # cs) (w # ws) (r # rs) =
     \<lparr>storey_no = floor_no, storey_floors = f, storey_ceilings = c, storey_walls = w,
      storey_roofs = r\<rparr> # stories_loop (floor_no + 1) fs cs ws rs"
| "stories_loop floor_no _ _ _ _ = []"

definition stories :: "Block \<Rightarrow> py_error + storey_dict list" where
  "stories b =
     (let floor_no = (if num_below_ground_stories b \<noteq> 0 then - num_below_ground_stories b else 0) in
      (case floors b of Inl e \<Rightarrow> Inl e | Inr fs \<Rightarrow>
      (case ceilings b of Inl e \<Rightarrow> Inl e | Inr cs \<Rightarrow>
      (case walls b of Inl e \<Rightarrow> Inl e | Inr ws \<Rightarrow>
      (case roofs b of Inl e \<Rightarrow> Inl e | Inr rs \<Rightarrow>
        Inr (stories_loop floor_no fs cs ws rs))))))"

subsection \<open>Zone\<close>

text \<open>
  \<^verbatim>\<open>Zone.__init__\<close> reads the keys \<^verbatim>\<open>walls\<close>, \<^verbatim>\<open>floors\<close>, \<^verbatim>\<open>roofs\<close> and \<^verbatim>\<open>ceilings\<close> of its
  argument and the \<^verbatim>\<open>area\<close> of every wall, so the argument is a dict shaped like one
  element of \<^verbatim>\<open>Block.stories\<close>; the key \<^verbatim>\<open>storey_no\<close> is not read. The first argument
  of \<open>Zone_init\<close> stands for \<^verbatim>\<open>Polygon3D.area\<close>.
\<close>

record Zone =
  zone_name :: string
  zone_walls :: "Polygon3D list"
  zone_floors :: "Polygon3D list"
  zone_roofs :: entry
  zone_ceilings :: entry

definition Zone_init :: "(Polygon3D \<Rightarrow> real) \<Rightarrow> string \<Rightarrow> storey_dict \<Rightarrow> Zone" where
  "Zone_init area nm surfs =
     \<lparr>zone_name = nm,
      zone_walls = filter (\<lambda>s. area s > 0) (storey_walls surfs),
      zone_floors = storey_floors surfs,
      zone_roofs = storey_roofs surfs,
      zone_ceilings = storey_ceilings surfs\<rparr>"

subsection \<open>The elevations in floating point\<close>

text \<open>
  The definitions above compute the elevations in exact arithmetic. The program computes
  them in Python floats, that is in IEEE 754 binary64 with round to nearest, ties to
  even: every arithmetic operation returns the exact result rounded to 53 significant
  bits, with exponents from -1022 to 1023, gradual underflow below and infinity above.
  The four elevation properties are also embedded over that arithmetic, under the names
  ending in \<open>_float\<close>.

  A float is a finite real, an infinity or a NaN. The two zeros are one value: they are
  equal under \<^verbatim>\<open>==\<close>, and only a division could tell them apart, which raises on both.
  A block's height and below-ground storey height are finite floats, as the docstring
  of \<^verbatim>\<open>Block.__init__\<close> says (an \<^verbatim>\<open>int\<close> passed for either acts as the float of the
  same value as long as that conversion is exact). A storey count or index that meets a
  float in an operation is converted to a float first, which raises \<^verbatim>\<open>OverflowError\<close>
  when it is too large.
\<close>

datatype pyfloat = Finite real | PosInf | NegInf | NaN

definition round_half_even :: "real \<Rightarrow> int" where
  "round_half_even y =
     (let n = \<lfloor>y\<rfloor>; d = y - of_int n
      in if d < 1 / 2 then n else if 1 / 2 < d then n + 1 else if even n then n else n + 1)"

function exponent_up :: "real \<Rightarrow> int \<Rightarrow> int" where
  "exponent_up a e = (if e < 1023 \<and> 2 powi (e + 1) \<le> a then exponent_up a (e + 1) else e)"
  by pat_completeness auto
termination
  by (relation "measure (\<lambda>(a, e). nat (1023 - e))") auto

function exponent_down :: "real \<Rightarrow> int \<Rightarrow> int" where
  "exponent_down a e = (if - 1022 < e \<and> a < 2 powi e then exponent_down a (e - 1) else e)"
  by pat_completeness auto
termination
  by (relation "measure (\<lambda>(a, e). nat (e + 1022))") auto

declare exponent_up.simps [simp del] exponent_down.simps [simp del]

text \<open>The exponent of the binade of \<open>a > 0\<close>, not below that of the subnormals.\<close>

definition binary_exponent :: "real \<Rightarrow> int" where
  "binary_exponent a = (if 1 \<le> a then exponent_up a 0 else exponent_down a 0)"

text \<open>Rounding of an exact result to the nearest float.\<close>

definition fl :: "real \<Rightarrow> pyfloat" where
  "fl x =
     (if x = 0 then Finite 0 else
      let a = \<bar>x\<bar>;
          q = 2 powi (binary_exponent a - 52);
          r = of_int (round_half_even (a / q)) * q
      in if 2 ^ 1024 \<le> r then (if x < 0 then NegInf else PosInf)
         else Finite (if x < 0 then - r else r))"

fun float_neg :: "pyfloat \<Rightarrow> pyfloat" where
  "float_neg (Finite x) = Finite (- x)"
| "float_neg PosInf = NegInf"
| "float_neg NegInf = PosInf"
| "float_neg NaN = NaN"

fun float_add :: "pyfloat \<Rightarrow> pyfloat \<Rightarrow> pyfloat" where
  "float_add (Finite x) (Finite y) = fl (x + y)"
| "float_add NaN y = NaN"
| "float_add x NaN = NaN"
| "float_add PosInf NegInf = NaN"
| "float_add NegInf PosInf = NaN"
| "float_add PosInf y = PosInf"
| "float_add x PosInf = PosInf"
| "float_add NegInf y = NegInf"
| "float_add x NegInf = NegInf"

definition float_sub :: "pyfloat \<Rightarrow> pyfloat \<Rightarrow> pyfloat" where
  "float_sub x y = float_add x (float_neg y)"

fun float_mul :: "pyfloat \<Rightarrow> pyfloat \<Rightarrow> pyfloat" where
  "float_mul (Finite x) (Finite y) = fl (x * y)"
| "float_mul NaN y = NaN"
| "float_mul x NaN = NaN"
| "float_mul (Finite x) PosInf = (if x = 0 then NaN else if 0 < x then PosInf else NegInf)"
| "float_mul (Finite x) NegInf = (if x = 0 then NaN else if 0 < x then NegInf else PosInf)"
| "float_mul PosInf (Finite y) = (if y = 0 then NaN else if 0 < y then PosInf else NegInf)"
| "float_mul NegInf (Finite y) = (if y = 0 then NaN else if 0 < y then NegInf else PosInf)"
| "float_mul PosInf PosInf = PosInf"
| "float_mul PosInf NegInf = NegInf"
| "float_mul NegInf PosInf = NegInf"
| "float_mul NegInf NegInf = PosInf"

text \<open>\<^verbatim>\<open>/\<close> between floats raises on a zero divisor, whatever the dividend.\<close>

fun float_truediv :: "pyfloat \<Rightarrow> pyfloat \<Rightarrow> py_error + pyfloat" where
  "float_truediv x (Finite y) =
     (if y = 0 then Inl ZeroDivisionError
      else Inr (case x of
                  Finite x' \<Rightarrow> fl (x' / y)
                | PosInf \<Rightarrow> (if 0 < y then PosInf else NegInf)
                | NegInf \<Rightarrow> (if 0 < y then NegInf else PosInf)
                | NaN \<Rightarrow> NaN))"
| "float_truediv (Finite x) PosInf = Inr (Finite 0)"
| "float_truediv (Finite x) NegInf = Inr (Finite 0)"
| "float_truediv x y = Inr NaN"

text \<open>The conversion of an \<^verbatim>\<open>int\<close> operand: correctly rounded, or \<^verbatim>\<open>OverflowError\<close>.\<close>

definition float_of_int :: "int \<Rightarrow> py_error + pyfloat" where
  "float_of_int n = (case fl (of_int n) of Finite r \<Rightarrow> Inr (Finite r) | _ \<Rightarrow> Inl OverflowError)"

text \<open>A list comprehension whose element expression may raise.\<close>

fun comprehension :: "('a \<Rightarrow> py_error + 'b) \<Rightarrow> 'a list \<Rightarrow> py_error + 'b list" where
  "comprehension f [] = Inr []"
| "comprehension f (x # xs) =
     (case f x of
        Inl e \<Rightarrow> Inl e
      | Inr y \<Rightarrow> (case comprehension f xs of Inl e \<Rightarrow> Inl e | Inr ys \<Rightarrow> Inr (y # ys)))"

definition storey_height_float :: "Block \<Rightarrow> py_error + pyfloat" where
  "storey_height_float b =
     (case float_of_int (num_stories b - num_below_ground_stories b) of
        Inl e \<Rightarrow> Inl e
      | Inr d \<Rightarrow> float_truediv (Finite (height b)) d)"

definition lowest_floor_level_float :: "Block \<Rightarrow> py_error + pyfloat" where
  "lowest_floor_level_float b =
     (case float_of_int (num_below_ground_stories b) of
        Inl e \<Rightarrow> Inl e
      | Inr n \<Rightarrow> Inr (float_neg (float_mul n (Finite (below_ground_storey_height b)))))"

definition floor_heights_float :: "Block \<Rightarrow> py_error + pyfloat list" where
  "floor_heights_float b =
     (case lowest_floor_level_float b of
        Inl e \<Rightarrow> Inl e
      | Inr lfl \<Rightarrow>
          (case storey_height_float b of
             Inl e \<Rightarrow> Inl e
           | Inr sh \<Rightarrow>
               comprehension
                 (\<lambda>i. case float_of_int i of
                         Inl e \<Rightarrow> Inl e
                       | Inr fi \<Rightarrow> Inr (float_add lfl (float_mul sh fi)))
                 [0..num_stories b - 1]))"

definition ceiling_heights_float :: "Block \<Rightarrow> py_error + pyfloat list" where
  "ceiling_heights_float b =
     (case lowest_floor_level_float b of
        Inl e \<Rightarrow> Inl e
      | Inr lfl \<Rightarrow>
          (case storey_height_float b of
             Inl e \<Rightarrow> Inl e
           | Inr sh \<Rightarrow>
               comprehension
                 (\<lambda>i. case float_of_int (i + 1) of
                         Inl e \<Rightarrow> Inl e
                       | Inr fi \<Rightarrow> Inr (float_add lfl (float_mul sh fi)))
                 [0..num_stories b - 1]))"

section \<open>Storey elevations in exact arithmetic\<close>

lemma storey_height_Inr:
  "num_stories b \<noteq> num_below_ground_stories b \<Longrightarrow>
   storey_height b = Inr (height b / of_int (num_stories b - num_below_ground_stories b))"
  by (simp add: storey_height_def)

lemma floor_heights_Inr:
  "num_stories b \<noteq> num_below_ground_stories b \<Longrightarrow>
   floor_heights b =
     Inr (map (\<lambda>i. lowest_floor_level b
                 + height b / of_int (num_stories b - num_below_ground_stories b) * of_int i)
            [0..num_stories b - 1])"
  by (simp add: floor_heights_def storey_height_Inr)

lemma ceiling_heights_Inr:
  "num_stories b \<noteq> num_below_ground_stories b \<Longrightarrow>
   ceiling_heights b =
     Inr (map (\<lambda>i. lowest_floor_level b
                 + height b / of_int (num_stories b - num_below_ground_stories b) * of_int (i + 1))
            [0..num_stories b - 1])"
  by (simp add: ceiling_heights_def storey_height_Inr)

lemma length_range: "length [0..n - 1] = nat n"
  by simp

lemma nth_range: "i < nat n \<Longrightarrow> [0..n - 1] ! i = int i"
  using nth_upto [of 0 i "n - 1"] by simp

text \<open>
  The elevations in exact arithmetic. For a block of height \<open>H\<close> with \<open>N \<ge> 1\<close> storeys of which \<open>B\<close> are below
  ground, \<open>0 \<le> B < N\<close>, and below-ground storey height \<open>G\<close>, both \<^verbatim>\<open>floor_heights\<close> and
  \<^verbatim>\<open>ceiling_heights\<close> return a list of length \<open>N\<close>; with \<open>L = -(B * G)\<close> and
  \<open>S = H / (N - B)\<close> the entries at index \<open>i\<close> are \<open>L + S * i\<close> and \<open>L + S * (i + 1)\<close>,
  and their difference is \<open>H / (N - B)\<close> at every storey, basement storeys included.
\<close>

lemma floor_and_ceiling_heights:
  assumes "1 \<le> num_stories b"
    and "0 \<le> num_below_ground_stories b"
    and "num_below_ground_stories b < num_stories b"
  shows "\<exists>fhs chs.
           floor_heights b = Inr fhs \<and> ceiling_heights b = Inr chs \<and>
           length fhs = nat (num_stories b) \<and> length chs = nat (num_stories b) \<and>
           (\<forall>i < nat (num_stories b).
              fhs ! i = - (of_int (num_below_ground_stories b) * below_ground_storey_height b)
                        + height b / of_int (num_stories b - num_below_ground_stories b) * of_nat i \<and>
              chs ! i = - (of_int (num_below_ground_stories b) * below_ground_storey_height b)
                        + height b / of_int (num_stories b - num_below_ground_stories b) * (of_nat i + 1) \<and>
              chs ! i - fhs ! i = height b / of_int (num_stories b - num_below_ground_stories b))"
proof -
  from assms have ne: "num_stories b \<noteq> num_below_ground_stories b" by simp
  show ?thesis
    unfolding floor_heights_Inr [OF ne] ceiling_heights_Inr [OF ne]
    by (simp add: nth_range lowest_floor_level_def algebra_simps add_divide_distrib)
qed

section \<open>Storey elevations in floating point\<close>

subsection \<open>Rounding and conversion\<close>

lemma round_half_even_upper: "of_int (round_half_even y) \<le> y + 1 / 2"
  unfolding round_half_even_def Let_def by (auto split: if_splits) linarith+

lemma round_half_even_lower: "y - 1 / 2 \<le> of_int (round_half_even y)"
  unfolding round_half_even_def Let_def by (auto split: if_splits) linarith+

lemma exponent_up_le: "e \<le> 1023 \<Longrightarrow> exponent_up a e \<le> 1023"
proof (induction a e rule: exponent_up.induct)
  case (1 a e)
  then show ?case by (subst exponent_up.simps) auto
qed

lemma exponent_up_below: "2 powi e \<le> a \<Longrightarrow> 2 powi (exponent_up a e) \<le> a"
proof (induction a e rule: exponent_up.induct)
  case (1 a e)
  then show ?case by (subst exponent_up.simps) auto
qed

lemma exponent_down_le: "exponent_down a e \<le> e"
proof (induction a e rule: exponent_down.induct)
  case (1 a e)
  then show ?case by (subst exponent_down.simps) auto
qed

lemma binary_exponent_le: "binary_exponent a \<le> 1023"
  using exponent_up_le [of 0 a] exponent_down_le [of a 0] by (auto simp: binary_exponent_def)

lemma binary_exponent_below: "1 \<le> a \<Longrightarrow> 2 powi (binary_exponent a) \<le> a"
  using exponent_up_below [of 0 a] by (simp add: binary_exponent_def)

lemma fl_finite:
  assumes "\<bar>x\<bar> \<le> 2 ^ 1023"
  shows "\<exists>r. fl x = Finite r"
proof (cases "x = 0")
  case True
  then show ?thesis by (simp add: fl_def)
next
  case False
  define q :: real where "q = 2 powi (binary_exponent \<bar>x\<bar> - 52)"
  define r :: real where "r = of_int (round_half_even (\<bar>x\<bar> / q)) * q"
  have q0: "0 < q" by (simp add: q_def)
  have "binary_exponent \<bar>x\<bar> - 52 \<le> 971" using binary_exponent_le [of "\<bar>x\<bar>"] by simp
  then have "q \<le> 2 powi 971" unfolding q_def by (intro power_int_increasing) simp_all
  then have q1: "q \<le> 2 ^ 971" by simp
  have "r \<le> (\<bar>x\<bar> / q + 1 / 2) * q"
    unfolding r_def using round_half_even_upper [of "\<bar>x\<bar> / q"] q0
    by (intro mult_right_mono) simp_all
  also have "\<dots> = \<bar>x\<bar> + q / 2" using q0 by (simp add: field_simps)
  also have "\<dots> \<le> 2 ^ 1023 + 2 ^ 971 / 2" using assms q1 by simp
  also have "\<dots> < 2 ^ 1024" by simp
  finally have small: "\<not> 2 ^ 1024 \<le> r" by simp
  have eq: "fl x =
      (if 2 ^ 1024 \<le> r then (if x < 0 then NegInf else PosInf)
       else Finite (if x < 0 then - r else r))"
    unfolding fl_def Let_def q_def r_def by (rule if_not_P) (rule False)
  show ?thesis unfolding eq using small by (simp only: if_False) blast
qed

lemma fl_of_int_nonzero:
  assumes "n \<noteq> 0"
  shows "fl (of_int n) \<noteq> Finite 0"
proof -
  let ?a = "\<bar>of_int n :: real\<bar>"
  define q :: real where "q = 2 powi (binary_exponent ?a - 52)"
  define r :: real where "r = of_int (round_half_even (?a / q)) * q"
  from assms have a1: "1 \<le> ?a" by (simp flip: of_int_abs add: int_one_le_iff_zero_less)
  have q0: "0 < q" by (simp add: q_def)
  have "q = 2 powi (binary_exponent ?a) / 2 ^ 52" by (simp add: q_def power_int_diff)
  also have "\<dots> \<le> ?a / 2 ^ 52"
    using binary_exponent_below [OF a1] by (intro divide_right_mono) simp_all
  finally have "q * 2 ^ 52 \<le> ?a" by (simp add: field_simps)
  then have "2 ^ 52 \<le> ?a / q" using q0 by (simp add: field_simps)
  moreover have "(1::real) \<le> 2 ^ 52" by simp
  ultimately have "1 \<le> ?a / q" by linarith
  with round_half_even_lower [of "?a / q"] have "0 < (of_int (round_half_even (?a / q)) :: real)"
    by linarith
  with q0 have r0: "0 < r" by (simp add: r_def)
  from assms have nz: "(of_int n :: real) \<noteq> 0" by simp
  have eq: "fl (of_int n) =
      (if 2 ^ 1024 \<le> r then (if (of_int n :: real) < 0 then NegInf else PosInf)
       else Finite (if (of_int n :: real) < 0 then - r else r))"
    unfolding fl_def Let_def q_def r_def by (rule if_not_P) (rule nz)
  show ?thesis unfolding eq using r0 by (simp split: if_splits)
qed

lemma float_of_int_Inr:
  assumes "\<bar>n\<bar> \<le> 2 ^ 1023"
  shows "float_of_int n = Inr (fl (of_int n))"
proof -
  have "\<bar>of_int n :: real\<bar> \<le> of_int (2 ^ 1023)"
    using assms by (simp only: of_int_abs [symmetric] of_int_le_iff)
  then have "\<bar>of_int n :: real\<bar> \<le> 2 ^ 1023" by simp
  from fl_finite [OF this] obtain r where "fl (of_int n) = Finite r" by blast
  then show ?thesis by (simp add: float_of_int_def)
qed

lemma comprehension_Inr:
  "(\<And>x. x \<in> set xs \<Longrightarrow> f x = Inr (g x)) \<Longrightarrow> comprehension f xs = Inr (map g xs)"
  by (induction xs) simp_all

subsection \<open>Rounding at some values\<close>

lemmas exponent_eval = binary_exponent_def exponent_up.simps exponent_down.simps
lemmas round_eval = round_half_even_def Let_def

lemma fl_0: "fl 0 = Finite 0"
  by (simp add: fl_def)

lemma binary_exponent_1: "binary_exponent 1 = 0"
  by (simp add: exponent_eval)

lemma fl_1: "fl 1 = Finite 1"
  unfolding fl_def by (simp add: binary_exponent_1 round_eval)

lemma binary_exponent_2: "binary_exponent 2 = 1"
  by (simp add: exponent_eval)

lemma fl_2: "fl 2 = Finite 2"
  unfolding fl_def by (simp add: binary_exponent_2 round_eval)

lemma binary_exponent_3: "binary_exponent 3 = 1"
  by (simp add: exponent_eval)

lemma fl_3: "fl 3 = Finite 3"
  unfolding fl_def by (simp add: binary_exponent_3 round_eval)

lemma binary_exponent_third: "binary_exponent (1 / 3) = - 2"
  by (simp add: exponent_eval)

lemma fl_third: "fl (1 / 3) = Finite (6004799503160661 / 18014398509481984)"
  unfolding fl_def by (simp add: binary_exponent_third round_eval)

lemma binary_exponent_s: "binary_exponent (6004799503160661 / 18014398509481984) = - 2"
  by (simp add: exponent_eval)

lemma fl_s:
  "fl (6004799503160661 / 18014398509481984) = Finite (6004799503160661 / 18014398509481984)"
  unfolding fl_def by (simp add: binary_exponent_s round_eval)

lemma binary_exponent_2s: "binary_exponent (6004799503160661 / 9007199254740992) = - 1"
  by (simp add: exponent_eval)

lemma fl_2s:
  "fl (6004799503160661 / 9007199254740992) = Finite (6004799503160661 / 9007199254740992)"
  unfolding fl_def by (simp add: binary_exponent_2s round_eval)

lemma binary_exponent_3s: "binary_exponent (18014398509481983 / 18014398509481984) = - 1"
  by (simp add: exponent_eval)

lemma fl_3s: "fl (18014398509481983 / 18014398509481984) = Finite 1"
  unfolding fl_def by (simp add: binary_exponent_3s round_eval)

lemma binary_exponent_diff: "binary_exponent (3002399751580331 / 9007199254740992) = - 2"
  by (simp add: exponent_eval)

lemma fl_diff:
  "fl (3002399751580331 / 9007199254740992) = Finite (3002399751580331 / 9007199254740992)"
  unfolding fl_def by (simp add: binary_exponent_diff round_eval)

lemma binary_exponent_small:
  "binary_exponent (5 / 2) = 1" "binary_exponent (9 / 2) = 2" "binary_exponent 9 = 3"
  "binary_exponent (27 / 2) = 3" "binary_exponent (13 / 2) = 2" "binary_exponent 11 = 3"
  by (simp_all add: exponent_eval)

lemma fl_small:
  "fl (5 / 2) = Finite (5 / 2)" "fl (- (5 / 2)) = Finite (- (5 / 2))"
  "fl (9 / 2) = Finite (9 / 2)" "fl 9 = Finite 9" "fl (27 / 2) = Finite (27 / 2)"
  "fl (13 / 2) = Finite (13 / 2)" "fl 11 = Finite 11"
  unfolding fl_def by (simp_all add: binary_exponent_small round_eval)

subsection \<open>The elevation lists\<close>

lemmas float_eval = floor_heights_float_def ceiling_heights_float_def storey_height_float_def
  lowest_floor_level_float_def float_of_int_def float_sub_def upto_rec1

text \<open>
  Against claim C1 as stated: for height 1 and three storeys above ground the storey
  height is the float nearest to one third. The topmost storey has its floor at twice
  that float and its ceiling at 1, and their difference, in floats as in exact
  arithmetic, is neither the storey height nor one third.
\<close>

theorem storey_difference_not_exact:
  "storey_height_float
     \<lparr>name = ''block'', coordinates = [(0, 0), (10, 0), (10, 10), (0, 10)], height = 1,
      num_stories = 3, num_below_ground_stories = 0, below_ground_storey_height = 5 / 2\<rparr>
     = Inr (Finite (6004799503160661 / 18014398509481984)) \<and>
   floor_heights_float
     \<lparr>name = ''block'', coordinates = [(0, 0), (10, 0), (10, 10), (0, 10)], height = 1,
      num_stories = 3, num_below_ground_stories = 0, below_ground_storey_height = 5 / 2\<rparr>
     = Inr [Finite 0, Finite (6004799503160661 / 18014398509481984),
            Finite (6004799503160661 / 9007199254740992)] \<and>
   ceiling_heights_float
     \<lparr>name = ''block'', coordinates = [(0, 0), (10, 0), (10, 10), (0, 10)], height = 1,
      num_stories = 3, num_below_ground_stories = 0, below_ground_storey_height = 5 / 2\<rparr>
     = Inr [Finite (6004799503160661 / 18014398509481984),
            Finite (6004799503160661 / 9007199254740992), Finite 1] \<and>
   float_sub (Finite 1) (Finite (6004799503160661 / 9007199254740992))
     = Finite (3002399751580331 / 9007199254740992) \<and>
   Finite (3002399751580331 / 9007199254740992)
     \<noteq> Finite (6004799503160661 / 18014398509481984) \<and>
   (3002399751580331 / 9007199254740992 :: real) \<noteq> 1 / 3"
  by (simp add: float_eval fl_0 fl_1 fl_2 fl_3 fl_third fl_s fl_2s fl_3s fl_diff)

lemma float_truediv_Finite:
  "d \<noteq> 0 \<Longrightarrow> float_truediv (Finite x) (Finite d) = Inr (fl (x / d))"
  by simp

text \<open>
  Claim C1, amended. For a block with \<open>N \<ge> 1\<close> storeys, \<open>N\<close> at most \<open>2 ^ 1023\<close> so
  that no conversion of a storey index overflows, of which \<open>B\<close> are below ground,
  \<open>0 \<le> B < N\<close>, both \<^verbatim>\<open>floor_heights\<close> and \<^verbatim>\<open>ceiling_heights\<close> return a list of length
  \<open>N\<close> whose entries at index \<open>i\<close> are \<open>L + S * i\<close> and \<open>L + S * (i + 1)\<close>, computed
  in floats from \<open>L = -(B * G)\<close> and \<open>S = H / (N - B)\<close>, each operation rounded. In
  exact arithmetic the entries are given by the same expressions and the difference of
  ceiling and floor is \<open>H / (N - B)\<close> at every storey, basement storeys included.
\<close>

theorem elevations_in_floating_point:
  assumes "1 \<le> num_stories b"
    and "0 \<le> num_below_ground_stories b"
    and "num_below_ground_stories b < num_stories b"
    and "num_stories b \<le> 2 ^ 1023"
  shows "(\<exists>d L S fhs chs.
            fl (of_int (num_stories b - num_below_ground_stories b)) = Finite d \<and> d \<noteq> 0 \<and>
            storey_height_float b = Inr S \<and> S = fl (height b / d) \<and>
            lowest_floor_level_float b = Inr L \<and>
            L = float_neg (float_mul (fl (of_int (num_below_ground_stories b)))
                             (Finite (below_ground_storey_height b))) \<and>
            floor_heights_float b = Inr fhs \<and> ceiling_heights_float b = Inr chs \<and>
            length fhs = nat (num_stories b) \<and> length chs = nat (num_stories b) \<and>
            (\<forall>i < nat (num_stories b).
               fhs ! i = float_add L (float_mul S (fl (of_nat i))) \<and>
               chs ! i = float_add L (float_mul S (fl (of_nat i + 1))))) \<and>
         (\<exists>fhs chs.
            floor_heights b = Inr fhs \<and> ceiling_heights b = Inr chs \<and>
            length fhs = nat (num_stories b) \<and> length chs = nat (num_stories b) \<and>
            (\<forall>i < nat (num_stories b).
               fhs ! i = - (of_int (num_below_ground_stories b) * below_ground_storey_height b)
                         + height b / of_int (num_stories b - num_below_ground_stories b) * of_nat i \<and>
               chs ! i = - (of_int (num_below_ground_stories b) * below_ground_storey_height b)
                         + height b / of_int (num_stories b - num_below_ground_stories b) * (of_nat i + 1) \<and>
               chs ! i - fhs ! i
                 = height b / of_int (num_stories b - num_below_ground_stories b)))"
proof
  let ?N = "num_stories b" and ?B = "num_below_ground_stories b"
  let ?L = "float_neg (float_mul (fl (of_int ?B)) (Finite (below_ground_storey_height b)))"
  from assms have nb: "\<bar>?N - ?B\<bar> \<le> 2 ^ 1023" and nz: "?N - ?B \<noteq> 0"
    and bb: "\<bar>?B\<bar> \<le> 2 ^ 1023"
    by simp_all
  have "\<bar>of_int (?N - ?B) :: real\<bar> \<le> of_int (2 ^ 1023)"
    using nb by (simp only: of_int_abs [symmetric] of_int_le_iff)
  then have "\<bar>of_int (?N - ?B) :: real\<bar> \<le> 2 ^ 1023" by simp
  from fl_finite [OF this] obtain d where d: "fl (of_int (?N - ?B)) = Finite d" by blast
  with fl_of_int_nonzero [OF nz] have d0: "d \<noteq> 0" by auto
  let ?S = "fl (height b / d)"
  have sh: "storey_height_float b = Inr ?S"
    unfolding storey_height_float_def float_of_int_Inr [OF nb] d by (simp add: d0)
  have lfl: "lowest_floor_level_float b = Inr ?L"
    unfolding lowest_floor_level_float_def float_of_int_Inr [OF bb] by simp
  have conv: "float_of_int i = Inr (fl (of_int i))" "float_of_int (i + 1) = Inr (fl (of_int (i + 1)))"
    if "i \<in> set [0..?N - 1]" for i
  proof -
    from that assms(4) have "\<bar>i\<bar> \<le> 2 ^ 1023" "\<bar>i + 1\<bar> \<le> 2 ^ 1023" by auto
    then show "float_of_int i = Inr (fl (of_int i))"
      "float_of_int (i + 1) = Inr (fl (of_int (i + 1)))"
      by (simp_all only: float_of_int_Inr)
  qed
  have fh: "floor_heights_float b
      = Inr (map (\<lambda>i. float_add ?L (float_mul ?S (fl (of_int i)))) [0..?N - 1])"
    unfolding floor_heights_float_def lfl sh
    by (simp only: sum.case) (rule comprehension_Inr, simp add: conv)
  have ch: "ceiling_heights_float b
      = Inr (map (\<lambda>i. float_add ?L (float_mul ?S (fl (of_int (i + 1))))) [0..?N - 1])"
    unfolding ceiling_heights_float_def lfl sh
    by (simp only: sum.case) (rule comprehension_Inr, simp add: conv)
  show "\<exists>d L S fhs chs.
            fl (of_int (?N - ?B)) = Finite d \<and> d \<noteq> 0 \<and>
            storey_height_float b = Inr S \<and> S = fl (height b / d) \<and>
            lowest_floor_level_float b = Inr L \<and>
            L = float_neg (float_mul (fl (of_int ?B)) (Finite (below_ground_storey_height b))) \<and>
            floor_heights_float b = Inr fhs \<and> ceiling_heights_float b = Inr chs \<and>
            length fhs = nat ?N \<and> length chs = nat ?N \<and>
            (\<forall>i < nat ?N.
               fhs ! i = float_add L (float_mul S (fl (of_nat i))) \<and>
               chs ! i = float_add L (float_mul S (fl (of_nat i + 1))))"
    using d d0 sh lfl unfolding fh ch by (simp add: nth_range)
next
  show "\<exists>fhs chs.
            floor_heights b = Inr fhs \<and> ceiling_heights b = Inr chs \<and>
            length fhs = nat (num_stories b) \<and> length chs = nat (num_stories b) \<and>
            (\<forall>i < nat (num_stories b).
               fhs ! i = - (of_int (num_below_ground_stories b) * below_ground_storey_height b)
                         + height b / of_int (num_stories b - num_below_ground_stories b) * of_nat i \<and>
               chs ! i = - (of_int (num_below_ground_stories b) * below_ground_storey_height b)
                         + height b / of_int (num_stories b - num_below_ground_stories b) * (of_nat i + 1) \<and>
               chs ! i - fhs ! i
                 = height b / of_int (num_stories b - num_below_ground_stories b))"
    by (rule floor_and_ceiling_heights [OF assms(1-3)])
qed

theorem elevations_in_floating_point_witness:
  "(let b = \<lparr>name = ''block'', coordinates = [(0, 0), (10, 0), (10, 10), (0, 10)], height = 9,
             num_stories = 3, num_below_ground_stories = 1, below_ground_storey_height = 5 / 2\<rparr>
    in 1 \<le> num_stories b \<and> 0 \<le> num_below_ground_stories b \<and>
       num_below_ground_stories b < num_stories b \<and> num_stories b \<le> 2 ^ 1023 \<and>
       storey_height_float b = Inr (Finite (9 / 2)) \<and>
       lowest_floor_level_float b = Inr (Finite (- (5 / 2))) \<and>
       floor_heights_float b = Inr [Finite (- (5 / 2)), Finite 2, Finite (13 / 2)] \<and>
       ceiling_heights_float b = Inr [Finite 2, Finite (13 / 2), Finite 11] \<and>
       floor_heights b = Inr [- (5 / 2), 2, 13 / 2] \<and>
       ceiling_heights b = Inr [2, 13 / 2, 11])"
  using elevations_in_floating_point
    [of "\<lparr>name = ''block'', coordinates = [(0, 0), (10, 0), (10, 10), (0, 10)], height = 9,
          num_stories = 3, num_below_ground_stories = 1, below_ground_storey_height = 5 / 2\<rparr>"]
  by (simp add: float_eval fl_0 fl_1 fl_2 fl_3 fl_small floor_heights_def ceiling_heights_def
      storey_height_def lowest_floor_level_def)

section \<open>Edges, translation and the surface lists\<close>

lemma length_edges: "length (edges poly) = length poly"
  by (simp add: edges_def)

lemma nth_edges: "j < length poly \<Longrightarrow> edges poly ! j = (poly ! j, poly ! (Suc j mod length poly))"
  by (simp add: edges_def nth_rotate1)

lemma length_footprint: "length (footprint b) = length (coordinates b)"
  by (simp add: footprint_def)

lemma walls_Inr:
  assumes "num_stories b \<noteq> num_below_ground_stories b"
  shows "walls b =
     Inr (map (\<lambda>i. map (\<lambda>edge. make_wall edge
                 (lowest_floor_level b
                    + height b / of_int (num_stories b - num_below_ground_stories b) * of_int i)
                 (lowest_floor_level b
                    + height b / of_int (num_stories b - num_below_ground_stories b) * of_int (i + 1)))
               (edges (footprint b)))
            [0..num_stories b - 1])"
  unfolding walls_def floor_heights_Inr [OF assms] ceiling_heights_Inr [OF assms]
  by (simp add: zip_map_map zip_same_conv_map)

lemma stories_loop_length:
  "length fs = n \<Longrightarrow> length cs = n \<Longrightarrow> length ws = n \<Longrightarrow> length rs = n \<Longrightarrow>
   length (stories_loop k fs cs ws rs) = n"
  by (induction k fs cs ws rs arbitrary: n rule: stories_loop.induct) auto

lemma stories_loop_nth:
  "length fs = n \<Longrightarrow> length cs = n \<Longrightarrow> length ws = n \<Longrightarrow> length rs = n \<Longrightarrow> i < n \<Longrightarrow>
   stories_loop k fs cs ws rs ! i =
     \<lparr>storey_no = k + int i, storey_floors = fs ! i, storey_ceilings = cs ! i,
      storey_walls = ws ! i, storey_roofs = rs ! i\<rparr>"
proof (induction k fs cs ws rs arbitrary: n i rule: stories_loop.induct)
  case (1 floor_no f fs c cs w ws r rs)
  then show ?case by (cases i) auto
qed auto

lemma butlast_range: "butlast [0..n - 1] = [0..n - 2]"
proof (cases "0 \<le> n - 1")
  case True
  then have "[0..n - 1] = [0..n - 1 - 1] @ [n - 1]" by (rule upto_rec2)
  then show ?thesis by simp
next
  case False
  then show ?thesis by simp
qed

lemma nat_pred: "nat (n - 1) = nat n - 1"
  by arith

lemma length_range2: "length [0..n - 2] = nat n - 1"
  by simp

lemma nth_range2: "Suc i < nat n \<Longrightarrow> [0..n - 2] ! i = int i"
  using nth_upto [of 0 i "n - 2"] by simp

lemma Vector3D_add_z:
  "Vector3D_add p (0, 0, h) = (fst p, fst (snd p), snd (snd p) + h)"
  by (cases p) simp

lemma Polygon3D_add_z:
  "Polygon3D_add poly (0, 0, h) = map (\<lambda>(x, y, z). (x, y, z + h)) poly"
  by (simp add: Polygon3D_add_def Vector3D_add_z split_def)

lemma ceilings_Inr:
  assumes "num_stories b \<noteq> num_below_ground_stories b"
  shows "ceilings b =
     Inr (map (\<lambda>i. Polys [Some (Polygon3D_add (footprint b) (0, 0, lowest_floor_level b
                 + height b / of_int (num_stories b - num_below_ground_stories b) * of_int (i + 1)))])
            [0..num_stories b - 2] @ [Str ''''])"
  unfolding ceilings_def ceiling_heights_Inr [OF assms]
  by (simp add: map_butlast [symmetric] butlast_range comp_def)

lemma roofs_Inr:
  assumes "num_stories b \<noteq> num_below_ground_stories b"
  shows "roofs b =
     Inr (map (\<lambda>i. Polys [None]) [0..num_stories b - 2]
          @ [Polys [Some (Polygon3D_add (footprint b) (0, 0, height b))]])"
  unfolding roofs_def ceiling_heights_Inr [OF assms]
  by (simp add: map_butlast [symmetric] butlast_range comp_def)

lemma floors_Inr:
  assumes "num_stories b \<noteq> num_below_ground_stories b"
  shows "floors b =
     Inr (map (\<lambda>i. [Polygon3D_add (invert_orientation (footprint b)) (0, 0, lowest_floor_level b
                 + height b / of_int (num_stories b - num_below_ground_stories b) * of_int i)])
            [0..num_stories b - 1])"
  unfolding floors_def floor_heights_Inr [OF assms]
  by (simp add: comp_def)

text \<open>The equations that evaluate the properties of a concrete block.\<close>

lemmas eval_defs = walls_def floors_def ceilings_def roofs_def floor_heights_def ceiling_heights_def
  storey_height_def lowest_floor_level_def footprint_def edges_def make_wall_def upto_rec1
  Polygon3D_add_def invert_orientation_def stories_def Let_def

section \<open>Walls\<close>

text \<open>
  Claim C4. At every storey \<^verbatim>\<open>walls\<close> holds exactly one wall per edge of the footprint,
  so as many walls as the block has stored coordinates. The wall on the edge from \<open>p1\<close>
  to \<open>p2\<close> of a storey with floor elevation \<open>f\<close> and ceiling elevation \<open>c\<close> has
  the vertices \<open>p1\<close> at \<open>c\<close>, \<open>p1\<close> at \<open>f\<close>, \<open>p2\<close> at \<open>f\<close>, \<open>p2\<close> at \<open>c\<close>, in
  this order; edge \<open>j\<close> runs from vertex \<open>j\<close> to vertex \<open>j + 1\<close>, wrapping at the end.
\<close>

theorem walls_one_per_edge:
  assumes "num_stories b \<noteq> num_below_ground_stories b"
  shows "\<exists>ws fhs chs.
           walls b = Inr ws \<and> floor_heights b = Inr fhs \<and> ceiling_heights b = Inr chs \<and>
           length ws = nat (num_stories b) \<and>
           (\<forall>i < nat (num_stories b).
              length (ws ! i) = length (edges (footprint b)) \<and>
              length (ws ! i) = length (coordinates b) \<and>
              (\<forall>j < length (coordinates b).
                 edges (footprint b) ! j
                   = (footprint b ! j, footprint b ! (Suc j mod length (coordinates b))) \<and>
                 (case edges (footprint b) ! j of ((x1, y1, z1), (x2, y2, z2)) \<Rightarrow>
                    ws ! i ! j = [(x1, y1, z1 + chs ! i), (x1, y1, z1 + fhs ! i),
                                  (x2, y2, z2 + fhs ! i), (x2, y2, z2 + chs ! i)])))"
  unfolding walls_Inr [OF assms] floor_heights_Inr [OF assms] ceiling_heights_Inr [OF assms]
  by (simp add: nth_range length_edges length_footprint nth_edges make_wall_def split_def
      Vector3D_add_z)

theorem walls_one_per_edge_witness:
  "(let b = \<lparr>name = ''block'', coordinates = [(0, 0), (10, 0), (10, 10), (0, 10)], height = 9,
             num_stories = 3, num_below_ground_stories = 0, below_ground_storey_height = 5 / 2\<rparr>
    in num_stories b \<noteq> num_below_ground_stories b \<and>
       (case walls b of
          Inl e \<Rightarrow> False
        | Inr ws \<Rightarrow> map length ws = [4, 4, 4] \<and>
                    ws ! 1 ! 3 = [(0, 10, 6), (0, 10, 3), (0, 0, 3), (0, 0, 6)]))"
  using walls_one_per_edge
    [of "\<lparr>name = ''block'', coordinates = [(0, 0), (10, 0), (10, 10), (0, 10)], height = 9,
          num_stories = 3, num_below_ground_stories = 0, below_ground_storey_height = 5 / 2\<rparr>"]
  by (simp add: eval_defs)

section \<open>Floors, ceilings and roofs\<close>

text \<open>
  Claim C5. The floor polygon of storey \<open>i\<close> is the footprint with its vertex order
  reversed, raised to the floor elevation of storey \<open>i\<close>; every ceiling polygon and the
  roof polygon keep the vertex order of the footprint, raised to the ceiling elevation
  of the storey and to the height of the block.
\<close>

theorem floors_inverted_ceilings_roof_original:
  assumes "num_stories b \<noteq> num_below_ground_stories b"
  shows "\<exists>fls cls rfs fhs chs.
           floors b = Inr fls \<and> ceilings b = Inr cls \<and> roofs b = Inr rfs \<and>
           floor_heights b = Inr fhs \<and> ceiling_heights b = Inr chs \<and>
           length fls = nat (num_stories b) \<and>
           (\<forall>i < nat (num_stories b).
              fls ! i = [map (\<lambda>(x, y, z). (x, y, z + fhs ! i)) (rev (footprint b))]) \<and>
           (\<forall>i. Suc i < nat (num_stories b) \<longrightarrow>
              cls ! i = Polys [Some (map (\<lambda>(x, y, z). (x, y, z + chs ! i)) (footprint b))]) \<and>
           last rfs = Polys [Some (map (\<lambda>(x, y, z). (x, y, z + height b)) (footprint b))]"
  unfolding floors_Inr [OF assms] ceilings_Inr [OF assms] roofs_Inr [OF assms]
    floor_heights_Inr [OF assms] ceiling_heights_Inr [OF assms]
  by (simp add: nth_range nth_range2 nth_append Polygon3D_add_z invert_orientation_def
      nat_pred less_diff_conv)

theorem floors_inverted_ceilings_roof_original_witness:
  "(let b = \<lparr>name = ''block'', coordinates = [(0, 0), (10, 0), (10, 10), (0, 10)], height = 9,
             num_stories = 3, num_below_ground_stories = 0, below_ground_storey_height = 5 / 2\<rparr>
    in num_stories b \<noteq> num_below_ground_stories b \<and>
       floors b = Inr [[[(0, 10, 0), (10, 10, 0), (10, 0, 0), (0, 0, 0)]],
                       [[(0, 10, 3), (10, 10, 3), (10, 0, 3), (0, 0, 3)]],
                       [[(0, 10, 6), (10, 10, 6), (10, 0, 6), (0, 0, 6)]]] \<and>
       ceilings b = Inr [Polys [Some [(0, 0, 3), (10, 0, 3), (10, 10, 3), (0, 10, 3)]],
                         Polys [Some [(0, 0, 6), (10, 0, 6), (10, 10, 6), (0, 10, 6)]],
                         Str ''''] \<and>
       roofs b = Inr [Polys [None], Polys [None],
                      Polys [Some [(0, 0, 9), (10, 0, 9), (10, 10, 9), (0, 10, 9)]]])"
  using floors_inverted_ceilings_roof_original
    [of "\<lparr>name = ''block'', coordinates = [(0, 0), (10, 0), (10, 10), (0, 10)], height = 9,
          num_stories = 3, num_below_ground_stories = 0, below_ground_storey_height = 5 / 2\<rparr>"]
  by (simp add: eval_defs)

text \<open>
  Claim C6. For a block with \<open>N\<close> storeys both \<^verbatim>\<open>ceilings\<close> and \<^verbatim>\<open>roofs\<close> have \<open>N\<close>
  entries. The entry of the topmost storey, index \<open>N - 1\<close>, is a roof polygon in
  \<^verbatim>\<open>roofs\<close> and the empty placeholder in \<^verbatim>\<open>ceilings\<close>; every storey below it has the
  footprint at its ceiling elevation in \<^verbatim>\<open>ceilings\<close> and the empty placeholder in
  \<^verbatim>\<open>roofs\<close>.
\<close>

theorem only_top_storey_has_roof:
  assumes "1 \<le> num_stories b" and "num_stories b \<noteq> num_below_ground_stories b"
  shows "\<exists>cls rfs chs.
           ceilings b = Inr cls \<and> roofs b = Inr rfs \<and> ceiling_heights b = Inr chs \<and>
           length cls = nat (num_stories b) \<and> length rfs = nat (num_stories b) \<and>
           cls ! (nat (num_stories b) - 1) = Str '''' \<and>
           rfs ! (nat (num_stories b) - 1)
             = Polys [Some (map (\<lambda>(x, y, z). (x, y, z + height b)) (footprint b))] \<and>
           (\<forall>i. Suc i < nat (num_stories b) \<longrightarrow>
              cls ! i = Polys [Some (map (\<lambda>(x, y, z). (x, y, z + chs ! i)) (footprint b))] \<and>
              rfs ! i = Polys [None])"
proof -
  from assms(1) have len: "Suc (nat (num_stories b) - Suc 0) = nat (num_stories b)" by simp
  show ?thesis
    unfolding ceilings_Inr [OF assms(2)] roofs_Inr [OF assms(2)] ceiling_heights_Inr [OF assms(2)]
    by (simp add: len nth_range nth_range2 nth_append Polygon3D_add_z nat_pred less_diff_conv)
qed

theorem only_top_storey_has_roof_witness:
  "(let b = \<lparr>name = ''block'', coordinates = [(0, 0), (4, 0), (0, 3)], height = 6,
             num_stories = 2, num_below_ground_stories = 0, below_ground_storey_height = 5 / 2\<rparr>
    in 1 \<le> num_stories b \<and> num_stories b \<noteq> num_below_ground_stories b \<and>
       ceilings b = Inr [Polys [Some [(0, 0, 3), (4, 0, 3), (0, 3, 3)]], Str ''''] \<and>
       roofs b = Inr [Polys [None], Polys [Some [(0, 0, 6), (4, 0, 6), (0, 3, 6)]]])"
  using only_top_storey_has_roof
    [of "\<lparr>name = ''block'', coordinates = [(0, 0), (4, 0), (0, 3)], height = 6,
          num_stories = 2, num_below_ground_stories = 0, below_ground_storey_height = 5 / 2\<rparr>"]
  by (simp add: eval_defs)

section \<open>Storeys and zones\<close>

lemma stories_Inr:
  assumes "num_stories b \<noteq> num_below_ground_stories b"
  shows "\<exists>fls cls ws rfs.
           floors b = Inr fls \<and> ceilings b = Inr cls \<and> walls b = Inr ws \<and> roofs b = Inr rfs \<and>
           stories b = Inr (stories_loop (- num_below_ground_stories b) fls cls ws rfs)"
  unfolding floors_Inr [OF assms] ceilings_Inr [OF assms] roofs_Inr [OF assms] walls_Inr [OF assms]
    stories_def
  by simp

lemma length_ceilings:
  "1 \<le> num_stories b \<Longrightarrow> ceilings b = Inr cls \<Longrightarrow> length cls = nat (num_stories b)"
  by (auto simp: ceilings_def ceiling_heights_def storey_height_def Let_def split: if_splits)

lemma length_roofs:
  "1 \<le> num_stories b \<Longrightarrow> roofs b = Inr rfs \<Longrightarrow> length rfs = nat (num_stories b)"
  by (auto simp: roofs_def ceiling_heights_def storey_height_def Let_def split: if_splits)

lemma length_floors:
  "floors b = Inr fls \<Longrightarrow> length fls = nat (num_stories b)"
  by (auto simp: floors_def floor_heights_def storey_height_def Let_def split: if_splits)

lemma length_walls:
  "walls b = Inr ws \<Longrightarrow> length ws = nat (num_stories b)"
  by (auto simp: walls_def floor_heights_def ceiling_heights_def storey_height_def Let_def
      split: if_splits)

lemma stories_nth:
  assumes "1 \<le> num_stories b" and "num_stories b \<noteq> num_below_ground_stories b"
  shows "\<exists>fls cls ws rfs sts.
           floors b = Inr fls \<and> ceilings b = Inr cls \<and> walls b = Inr ws \<and> roofs b = Inr rfs \<and>
           stories b = Inr sts \<and> length sts = nat (num_stories b) \<and>
           (\<forall>i < nat (num_stories b).
              sts ! i = \<lparr>storey_no = - num_below_ground_stories b + int i,
                         storey_floors = fls ! i, storey_ceilings = cls ! i,
                         storey_walls = ws ! i, storey_roofs = rfs ! i\<rparr>)"
proof -
  from stories_Inr [OF assms(2)] obtain fls cls ws rfs where
    f: "floors b = Inr fls" and c: "ceilings b = Inr cls" and w: "walls b = Inr ws" and
    r: "roofs b = Inr rfs" and
    s: "stories b = Inr (stories_loop (- num_below_ground_stories b) fls cls ws rfs)"
    by blast
  note lens = length_floors [OF f] length_ceilings [OF assms(1) c] length_walls [OF w]
    length_roofs [OF assms(1) r]
  show ?thesis
    using f c w r s stories_loop_length [OF lens] stories_loop_nth [OF lens]
    by simp
qed

text \<open>
  Claim C10. The two placeholders differ: the last entry of \<^verbatim>\<open>ceilings\<close> is the empty
  string, each of the \<open>N - 1\<close> entries of \<^verbatim>\<open>roofs\<close> below the top is the list
  \<^verbatim>\<open>[None]\<close>, and \<^verbatim>\<open>[None]\<close> is no entry of \<^verbatim>\<open>ceilings\<close>. A zone built from a storey
  holds the storey's ceilings and roofs entries as they are, so the zone of the topmost
  storey has the empty string as its ceilings.
\<close>

theorem placeholders_untyped:
  assumes "1 \<le> num_stories b" and "num_stories b \<noteq> num_below_ground_stories b"
  shows "\<exists>cls rfs sts.
           ceilings b = Inr cls \<and> roofs b = Inr rfs \<and> stories b = Inr sts \<and>
           length cls = nat (num_stories b) \<and> length rfs = nat (num_stories b) \<and>
           length sts = nat (num_stories b) \<and>
           last cls = Str '''' \<and>
           (\<forall>i. Suc i < nat (num_stories b) \<longrightarrow> rfs ! i = Polys [None]) \<and>
           Polys [None] \<notin> set cls \<and>
           (\<forall>i < nat (num_stories b).
              zone_ceilings (Zone_init area nm (sts ! i)) = cls ! i \<and>
              zone_roofs (Zone_init area nm (sts ! i)) = rfs ! i) \<and>
           zone_ceilings (Zone_init area nm (last sts)) = Str ''''"
proof -
  from stories_nth [OF assms] obtain fls cls ws rfs sts where
    c: "ceilings b = Inr cls" and r: "roofs b = Inr rfs" and s: "stories b = Inr sts" and
    ls: "length sts = nat (num_stories b)" and
    nth: "\<forall>i < nat (num_stories b).
              sts ! i = \<lparr>storey_no = - num_below_ground_stories b + int i,
                         storey_floors = fls ! i, storey_ceilings = cls ! i,
                         storey_walls = ws ! i, storey_roofs = rfs ! i\<rparr>"
    by blast
  have lc: "length cls = nat (num_stories b)" by (rule length_ceilings [OF assms(1) c])
  have lr: "length rfs = nat (num_stories b)" by (rule length_roofs [OF assms(1) r])
  have lastc: "last cls = Str ''''" and notin: "Polys [None] \<notin> set cls"
    using c unfolding ceilings_Inr [OF assms(2)] by auto
  have rnone: "\<forall>i. Suc i < nat (num_stories b) \<longrightarrow> rfs ! i = Polys [None]"
    using r unfolding roofs_Inr [OF assms(2)]
    by (auto simp: nth_append nat_pred less_diff_conv)
  have pass: "\<forall>i < nat (num_stories b).
      zone_ceilings (Zone_init area nm (sts ! i)) = cls ! i \<and>
      zone_roofs (Zone_init area nm (sts ! i)) = rfs ! i"
    using nth by (simp add: Zone_init_def)
  from assms(1) have pos: "nat (num_stories b) - 1 < nat (num_stories b)" by simp
  have "sts \<noteq> []" "cls \<noteq> []" using ls lc assms(1) by auto
  then have "last sts = sts ! (nat (num_stories b) - 1)" "last cls = cls ! (nat (num_stories b) - 1)"
    using ls lc by (simp_all add: last_conv_nth)
  with pass pos lastc have top: "zone_ceilings (Zone_init area nm (last sts)) = Str ''''"
    by metis
  from c r s lc lr ls lastc rnone notin pass top show ?thesis by blast
qed

theorem placeholders_untyped_witness:
  "(let b = \<lparr>name = ''block'', coordinates = [(0, 0), (4, 0), (0, 3)], height = 6,
             num_stories = 2, num_below_ground_stories = 1, below_ground_storey_height = 5 / 2\<rparr>
    in 1 \<le> num_stories b \<and> num_stories b \<noteq> num_below_ground_stories b \<and>
       (case stories b of
          Inl e \<Rightarrow> False
        | Inr sts \<Rightarrow>
            map storey_no sts = [-1, 0] \<and>
            map (\<lambda>s. zone_ceilings (Zone_init polygon_area ''zone'' s)) sts
              = [Polys [Some [(0, 0, 7 / 2), (4, 0, 7 / 2), (0, 3, 7 / 2)]], Str ''''] \<and>
            map (\<lambda>s. zone_roofs (Zone_init polygon_area ''zone'' s)) sts
              = [Polys [None], Polys [Some [(0, 0, 6), (4, 0, 6), (0, 3, 6)]]]))"
  using placeholders_untyped
    [of "\<lparr>name = ''block'', coordinates = [(0, 0), (4, 0), (0, 3)], height = 6,
          num_stories = 2, num_below_ground_stories = 1, below_ground_storey_height = 5 / 2\<rparr>"]
  by (simp add: eval_defs Zone_init_def)

subsection \<open>The area of a wall\<close>










section \<open>The roof and the topmost storey\<close>

lemma top_ceiling_eq_height_iff:
  assumes "1 \<le> num_stories b" and "num_stories b \<noteq> num_below_ground_stories b"
    and "ceiling_heights b = Inr chs"
  shows "last chs = height b \<longleftrightarrow>
           num_below_ground_stories b = 0 \<or>
           below_ground_storey_height b
             = height b / of_int (num_stories b - num_below_ground_stories b)"
proof -
  let ?N = "num_stories b" and ?B = "num_below_ground_stories b"
  let ?S = "height b / of_int (?N - ?B)"
  have d: "(of_int (?N - ?B) :: real) \<noteq> 0" using assms(2) by simp
  from assms(1) have ne: "[0..?N - 1] \<noteq> []" by simp
  from assms(1) have la: "last [0..?N - 1] = ?N - 1"
    using upto_rec2 [of 0 "?N - 1"] by simp
  from assms(3) have "last chs = lowest_floor_level b + ?S * of_int ?N"
    unfolding ceiling_heights_Inr [OF assms(2)] using ne la by (auto simp: last_map)
  also have "\<dots> = height b + of_int ?B * (?S - below_ground_storey_height b)"
    using d by (simp add: lowest_floor_level_def field_simps)
  finally have "last chs = height b + of_int ?B * (?S - below_ground_storey_height b)" .
  then show ?thesis by auto
qed

text \<open>
  Claim C2. The roof, the footprint raised to the height \<open>H\<close> of the block, should lie
  at the ceiling elevation of the topmost storey, where the walls of that storey end.
  By \<open>top_ceiling_eq_height_iff\<close> the two elevations agree only for a block without
  basement or with a basement storey height equal to the above-ground storey height.
  For height 9, three storeys, one of them below ground, and basement storey height
  2.5 the roof is at elevation 9 and the walls of the topmost storey reach up to 11.
\<close>

theorem roof_below_top_ceiling:
  "(let b = \<lparr>name = ''block'', coordinates = [(0, 0), (10, 0), (10, 10), (0, 10)], height = 9,
             num_stories = 3, num_below_ground_stories = 1, below_ground_storey_height = 5 / 2\<rparr>
    in floor_heights b = Inr [- 5 / 2, 2, 13 / 2] \<and>
       ceiling_heights b = Inr [2, 13 / 2, 11] \<and>
       roofs b = Inr [Polys [None], Polys [None],
                      Polys [Some [(0, 0, 9), (10, 0, 9), (10, 10, 9), (0, 10, 9)]]] \<and>
       (case walls b of
          Inl e \<Rightarrow> False
        | Inr ws \<Rightarrow> ws ! 2 = [[(0, 0, 11), (0, 0, 13 / 2), (10, 0, 13 / 2), (10, 0, 11)],
                               [(10, 0, 11), (10, 0, 13 / 2), (10, 10, 13 / 2), (10, 10, 11)],
                               [(10, 10, 11), (10, 10, 13 / 2), (0, 10, 13 / 2), (0, 10, 11)],
                               [(0, 10, 11), (0, 10, 13 / 2), (0, 0, 13 / 2), (0, 0, 11)]]))"
  by (simp add: eval_defs)

section \<open>Storey counts that leave no storey above ground\<close>





section \<open>The closing point of the footprint\<close>

text \<open>
  Against claim C8 as stated: a list that ends in the closing point written twice has
  equal first and last points; the block built from it keeps one closing point, the
  block built from the list without its last point keeps none.
\<close>

theorem repeated_closing_point_not_idempotent:
  "hd [(0, 0), (1, 0), (1, 1), (0, 0), (0, 0 :: real)] = last [(0, 0), (1, 0), (1, 1), (0, 0), (0, 0 :: real)] \<and>
   Block_init ''block'' [(0, 0), (1, 0), (1, 1), (0, 0), (0, 0)] 3 1 0 (5 / 2)
     = Inr \<lparr>name = ''block'', coordinates = [(0, 0), (1, 0), (1, 1), (0, 0)], height = 3,
            num_stories = 1, num_below_ground_stories = 0, below_ground_storey_height = 5 / 2\<rparr> \<and>
   Block_init ''block'' (butlast [(0, 0), (1, 0), (1, 1), (0, 0), (0, 0)]) 3 1 0 (5 / 2)
     = Inr \<lparr>name = ''block'', coordinates = [(0, 0), (1, 0), (1, 1)], height = 3,
            num_stories = 1, num_below_ground_stories = 0, below_ground_storey_height = 5 / 2\<rparr> \<and>
   Block_init ''block'' [(0, 0), (1, 0), (1, 1), (0, 0), (0, 0)] 3 1 0 (5 / 2)
     \<noteq> Block_init ''block'' (butlast [(0, 0), (1, 0), (1, 1), (0, 0), (0, 0)]) 3 1 0 (5 / 2)"
  by (simp add: Block_init_def)

text \<open>
  Claim C8, amended. For every non-empty coordinate list whose first and last points
  differ, the block built from the list followed by a copy of its first point is the
  block built from the list itself, and it stores the list unchanged. Footprint,
  storeys and surfaces are functions of the block, so they agree as well.
\<close>

theorem closing_point_removed_once:
  assumes "coords \<noteq> []" and "hd coords \<noteq> last coords"
  shows "\<exists>b. Block_init nm (coords @ [hd coords]) h n bg bgh = Inr b \<and>
             Block_init nm coords h n bg bgh = Inr b \<and>
             coordinates b = coords"
  using assms by (cases coords) (simp_all add: Block_init_def)

theorem closing_point_removed_once_witness:
  "[(0, 0), (1, 0), (1, 1 :: real)] \<noteq> [] \<and>
   hd [(0, 0), (1, 0), (1, 1 :: real)] \<noteq> last [(0, 0), (1, 0), (1, 1 :: real)] \<and>
   Block_init ''block'' [(0, 0), (1, 0), (1, 1), (0, 0)] 3 1 0 (5 / 2)
     = Block_init ''block'' [(0, 0), (1, 0), (1, 1)] 3 1 0 (5 / 2)"
  using closing_point_removed_once [of "[(0, 0), (1, 0), (1, 1)]" "''block''" 3 1 0 "5 / 2"]
  by (simp add: Block_init_def)

section \<open>Degenerate footprints\<close>

text \<open>
  Against claim C9 as stated: a footprint of two distinct points is accepted and stored.
\<close>

theorem two_point_footprint_accepted:
  "length (remdups [(0, 0), (1, 0 :: real)]) < 3 \<and>
   Block_init ''block'' [(0, 0), (1, 0)] 3 1 0 (5 / 2)
     = Inr \<lparr>name = ''block'', coordinates = [(0, 0), (1, 0)], height = 3,
            num_stories = 1, num_below_ground_stories = 0, below_ground_storey_height = 5 / 2\<rparr>"
  by (simp add: Block_init_def)

text \<open>
  Claim C9, amended. Construction does not count the points of the footprint. It raises
  \<^verbatim>\<open>IndexError\<close> on the empty coordinate list, and on every non-empty list it returns a
  block that stores the list, without its last point when that equals the first.
\<close>

theorem only_empty_footprint_rejected:
  "(coords = [] \<longrightarrow> Block_init nm coords h n bg bgh = Inl IndexError) \<and>
   (coords \<noteq> [] \<longrightarrow>
      (\<exists>b. Block_init nm coords h n bg bgh = Inr b \<and>
           coordinates b = (if hd coords = last coords then butlast coords else coords)))"
  by (simp add: Block_init_def)

theorem only_empty_footprint_rejected_witness:
  "Block_init ''block'' [] 3 1 0 (5 / 2) = Inl IndexError \<and>
   [(0, 0), (1, 0 :: real)] \<noteq> [] \<and>
   (\<exists>b. Block_init ''block'' [(0, 0), (1, 0)] 3 1 0 (5 / 2) = Inr b \<and>
        coordinates b = [(0, 0), (1, 0)])"
  using only_empty_footprint_rejected [of "[]" "''block''" 3 1 0 "5 / 2"]
    only_empty_footprint_rejected [of "[(0, 0), (1, 0)]" "''block''" 3 1 0 "5 / 2"]
  by simp

end
